theory Spec2Isabelle
  imports Main "HOL-Library.Sublist"
begin

section \<open>JavaScript string primitives used by the tools\<close>

text \<open>
  Strings are lists of code units; \<^typ>\<open>char\<close> covers the code units below 256, and the
  white space that \<open>String.prototype.trim\<close> removes is, in that range, TAB, LF, VT, FF, CR,
  SPACE and NO-BREAK SPACE.
\<close>

definition isWhiteSpace :: "char \<Rightarrow> bool" where
  "isWhiteSpace c = (of_char c \<in> {9, 10, 11, 12, 13, 32, 160 :: nat})"

definition trim :: "string \<Rightarrow> string" where
  "trim s = rev (dropWhile isWhiteSpace (rev (dropWhile isWhiteSpace s)))"

definition startsWith :: "string \<Rightarrow> string \<Rightarrow> bool" where
  "startsWith s p = (take (length p) s = p)"

definition endsWith :: "string \<Rightarrow> string \<Rightarrow> bool" where
  "endsWith s p = (length p \<le> length s \<and> drop (length s - length p) s = p)"

text \<open>\<open>s.includes(p)\<close>: \<open>p\<close> occurs in \<open>s\<close> as a contiguous run.\<close>

fun includesStr :: "string \<Rightarrow> string \<Rightarrow> bool" where
  "includesStr [] p = (p = [])"
| "includesStr (c # cs) p = (startsWith (c # cs) p \<or> includesStr cs p)"

text \<open>\<open>s.split(sep)\<close> for a one-character separator; the result is never empty.\<close>

fun split :: "string \<Rightarrow> char \<Rightarrow> string list" where
  "split [] sep = [[]]"
| "split (c # cs) sep =
     (if c = sep then [] # split cs sep
      else (case split cs sep of [] \<Rightarrow> [[c]] | x # xs \<Rightarrow> (c # x) # xs))"

fun join :: "string list \<Rightarrow> string \<Rightarrow> string" where
  "join [] sep = []"
| "join [x] sep = x"
| "join (x # y # ys) sep = x @ sep @ join (y # ys) sep"

text \<open>
  \<open>Array.prototype.slice(start, end)\<close>: a negative index counts from the end, every index
  is clamped to the array, and a missing \<open>end\<close> is the length.
\<close>

definition relativeIndex :: "nat \<Rightarrow> int \<Rightarrow> nat" where
  "relativeIndex len k = (if k < 0 then nat (max (int len + k) 0) else min (nat k) len)"

definition slice :: "'a list \<Rightarrow> int \<Rightarrow> int option \<Rightarrow> 'a list" where
  "slice xs start end =
     (let from = relativeIndex (length xs) start;
          to = (case end of None \<Rightarrow> length xs | Some k \<Rightarrow> relativeIndex (length xs) k)
      in take (to - from) (drop from xs))"

text \<open>
  \<open>s.replace(/p/g, r)\<close> for a pattern \<open>p\<close> that is a non-empty literal: the matches are
  found from left to right and do not overlap.
\<close>

fun replace_g :: "string \<Rightarrow> string \<Rightarrow> string \<Rightarrow> string" where
  "replace_g [] p r = []"
| "replace_g (c # cs) p r =
     (if p \<noteq> [] \<and> startsWith (c # cs) p
      then r @ replace_g (drop (length p) (c # cs)) p r
      else c # replace_g cs p r)"

section \<open>\<open>WriteFileTool.preprocessContent\<close>\<close>

text \<open>
  The three \<open>replace\<close> calls are taken as the source has them: the patterns are the
  characters \<open>>\<close>, \<open><\<close> and the double quote, each replaced by itself.
\<close>

definition preprocessContent :: "string \<Rightarrow> string" where
  "preprocessContent content0 =
     (let content1 = trim content0;
          content2 = (if startsWith content1 ''```''
                      then trim (join (slice (split content1 CHR ''\<newline>'') 1 None) ''\<newline>'')
                      else content1);
          content3 = (if endsWith content2 ''```''
                      then trim (join (slice (split content2 CHR ''\<newline>'') 0 (Some (- 1))) ''\<newline>'')
                      else content2)
      in replace_g (replace_g (replace_g content3 ''>'' ''>'') ''<'' ''<'') [CHR 0x22] [CHR 0x22])"

section \<open>The approval channel, thrown values and tool responses\<close>

datatype approvalState = Pending | Loading | Approved | Rejected | ErrorState

datatype EarlyExitState = ExitApproved | ExitRejected | ExitPending

datatype askResponse = yesButtonTapped | noButtonTapped | messageResponse

datatype toolName = execute_command | write_to_file

text \<open>
  The payload of \<open>ask\<close> and \<open>updateAsk\<close>. The fields \<open>ts\<close> and \<open>isSubMsg\<close> are the same
  in every payload of one invocation and are left out; a field the source does not set, or
  sets to \<open>undefined\<close>, is \<open>None\<close>.
\<close>

record ChatTool =
  tool :: toolName
  command :: "string option"
  content :: "string option"
  path :: "string option"
  "output" :: "string option"
  approvalState :: approvalState
  earlyExit :: "EarlyExitState option"
  userFeedback :: "string option"


definition fileTool :: "string \<Rightarrow> string \<Rightarrow> approvalState \<Rightarrow> ChatTool" where
  "fileTool relPath c st =
     \<lparr>tool = write_to_file, command = None, content = Some c, path = Some relPath, output = None,
      approvalState = st, earlyExit = None, userFeedback = None\<rparr>"

text \<open>What \<open>ask\<close> resolves to: \<open>{ response, text, images }\<close>.\<close>

record AskResult =
  response :: askResponse
  askText :: "string option"
  askImages :: "string list option"

text \<open>
  A thrown value: an \<open>Error\<close> object with its message, or any other value with its
  \<open>String(...)\<close> rendering.
\<close>

datatype thrown = JsError string | JsValue string

datatype diffKind = editedExistingFile | newFileCreated

text \<open>
  Everything an invocation does to its collaborators, in order: the calls it makes, as
  they are made. \<open>UpdateAsk\<close> is a broadcast the channel received; \<open>UpdateAskFailed\<close> is
  a broadcast whose promise rejected. After any other call, \<open>Threw e\<close> says that this call
  threw \<open>e\<close> or that its promise rejected with \<open>e\<close>. \<open>SayUserFeedbackDiff k p d\<close> is
  \<open>say("user_feedback_diff", JSON.stringify({tool: k, path: p, diff: d}))\<close>.
  \<open>UnhandledRejection\<close> is a promise that rejected with nobody awaiting it.
\<close>

datatype effect =
    Ask ChatTool
  | UpdateAsk ChatTool
  | UpdateAskFailed ChatTool thrown
  | Say string "string option" "string list option"
  | SayUserFeedbackDiff diffKind string string
  | GetOrCreateTerminal
  | TerminalShow
  | RunCommand string
  | DiffOpen string
  | DiffUpdate string bool
  | DiffRevert
  | DiffSave
  | CheckFileExists string
  | Threw thrown
  | UnhandledRejection thrown

text \<open>
  The formatters of \<open>BaseAgentTool\<close> and of \<open>utils\<close> are outside these two files; a tool
  response records which formatter produced it and from which arguments.
  \<open>Returned s\<close> is a string returned as it is.
\<close>

datatype ToolText = Literal string | FormatToolDeniedFeedback "string option"

datatype ToolResponse =
    Returned string
  | FormatToolDenied
  | FormatToolResponseWithImages ToolText "string list option"
  | FormatToolError string
  | FormatToolResponse string "string list option"

fun broadcastStates :: "effect list \<Rightarrow> approvalState list" where
  "broadcastStates [] = []"
| "broadcastStates (UpdateAsk p # es) = approvalState p # broadcastStates es"
| "broadcastStates (e # es) = broadcastStates es"



section \<open>The collaborators of an invocation\<close>

text \<open>
  What the collaborators do is given by the environment: \<open>askResult\<close> is what \<open>ask\<close>
  resolves to when it resolves, and \<open>callError c\<close> tells whether the call \<open>c\<close>, of the
  Approval Channel, of the terminal manager or of the Diff Session, throws or rejects,
  and with which value. \<open>ask\<close>, \<open>updateAsk\<close> and \<open>say\<close> are async functions, so they fail
  by rejecting the promise they return. The formatters, the path helpers, \<open>getCwd\<close> and
  the state getters are taken to return.
\<close>

record Collaborators =
  askResult :: AskResult
  callError :: "effect \<Rightarrow> thrown option"

text \<open>A call whose result the source awaits, or that it makes synchronously.\<close>

definition awaited :: "'a Collaborators_scheme \<Rightarrow> effect \<Rightarrow> effect list \<times> thrown option" where
  "awaited env c =
     (case callError env c of None \<Rightarrow> ([c], None) | Some e \<Rightarrow> ([c, Threw e], Some e))"

text \<open>\<open>await updateAsk(...)\<close>: the broadcast is received, or its promise rejects.\<close>

definition updateAsk :: "'a Collaborators_scheme \<Rightarrow> ChatTool \<Rightarrow> effect list \<times> thrown option" where
  "updateAsk env p =
     (case callError env (UpdateAsk p) of
        None \<Rightarrow> ([UpdateAsk p], None)
      | Some e \<Rightarrow> ([UpdateAskFailed p e], Some e))"

text \<open>\<open>updateAsk(...)\<close> without \<open>await\<close>: a rejection reaches nobody.\<close>

definition updateAskUnawaited :: "'a Collaborators_scheme \<Rightarrow> ChatTool \<Rightarrow> effect list" where
  "updateAskUnawaited env p =
     (case callError env (UpdateAsk p) of
        None \<Rightarrow> [UpdateAsk p]
      | Some e \<Rightarrow> [UpdateAskFailed p e, UnhandledRejection e])"

text \<open>
  \<open>say("user_feedback", text ?? "The user denied this operation.", images)\<close>, as both
  tools call it with what \<open>ask\<close> resolved to.
\<close>

definition userFeedbackSay :: "AskResult \<Rightarrow> effect" where
  "userFeedbackSay r =
     Say ''user_feedback''
       (Some (case askText r of None \<Rightarrow> ''The user denied this operation.'' | Some t \<Rightarrow> t))
       (askImages r)"


section \<open>\<open>ExecuteCommandTool\<close>: the command execution engine\<close>

datatype processEvent = Line string | Completed | ProcessError string | NoShellIntegration

text \<open>
  What happens, in order, once the process is started: the process emits an event, the
  45 s timer of the race fires, or the promise that the engine awaits at that moment (the
  300 ms delay, the finalizing broadcast, the formatter) settles. A promise settles at
  the latest when nothing else is left to happen; what is left when \<open>execute\<close> returns
  happens after it.
\<close>

datatype stimulus = Emit processEvent | Timeout | Settled


text \<open>
  The variables the event handlers share with \<open>executeShellTerminal\<close>: the field
  \<open>this.output\<close>, the locals \<open>didContinue\<close>, \<open>earlyExit\<close> and \<open>completed\<close>, whether the
  one-shot \<open>no_shell_integration\<close> listener is still registered, and the effects so far.
\<close>

record engine =
  this_output :: string
  didContinue :: bool
  local_earlyExit :: EarlyExitState
  completed :: bool
  noShellListener :: bool
  effects :: "effect list"









text \<open>The process events among what is still to happen.\<close>

fun emitted :: "stimulus list \<Rightarrow> processEvent list" where
  "emitted [] = []"
| "emitted (Emit e # rest) = e # emitted rest"
| "emitted (Timeout # rest) = emitted rest"
| "emitted (Settled # rest) = emitted rest"










text \<open>A step outside any \<open>try\<close>: what it throws is thrown to the caller.\<close>

definition orThrow ::
  "effect list \<Rightarrow> effect list \<times> thrown option
     \<Rightarrow> (effect list \<Rightarrow> effect list \<times> (thrown + ToolResponse))
     \<Rightarrow> effect list \<times> (thrown + ToolResponse)" where
  "orThrow tr step k =
     (case snd step of Some e \<Rightarrow> (tr @ fst step, Inl e) | None \<Rightarrow> k (tr @ fst step))"





section \<open>\<open>WriteFileTool\<close>: the file write engine\<close>

text \<open>
  The environment of one file-write invocation: the collaborators, whether the diff view
  is open already, whether the file exists, the \<open>userEdits\<close> that \<open>saveChanges\<close> yields
  when it returns, and the path helpers \<open>relPath.toPosix()\<close> and
  \<open>getReadablePath(getCwd(), relPath)\<close>.
\<close>

record WriteEnv = Collaborators +
  isDiffViewOpen :: bool
  fileExists :: bool
  userEdits :: "string option"
  toPosix :: "string \<Rightarrow> string"
  getReadablePath :: "string \<Rightarrow> string"

text \<open>The effects of \<open>showChangesInDiffView\<close> and the value it throws, if any.\<close>

definition showChangesInDiffView ::
  "WriteEnv \<Rightarrow> string \<Rightarrow> string \<Rightarrow> effect list \<times> thrown option" where
  "showChangesInDiffView env relPath content0 =
     (let c = preprocessContent content0 in
      if \<not> isDiffViewOpen env then
        (case snd (awaited env (DiffOpen relPath)) of
           Some e \<Rightarrow> (fst (awaited env (DiffOpen relPath)), Some e)
         | None \<Rightarrow> (fst (awaited env (DiffOpen relPath)) @ fst (awaited env (DiffUpdate c True)),
                    snd (awaited env (DiffUpdate c True))))
      else awaited env (DiffUpdate c True))"

text \<open>The \<open>catch\<close> block of \<open>processFileWrite\<close>.\<close>

definition writeCatch :: "effect list \<Rightarrow> thrown \<Rightarrow> effect list \<times> ToolResponse" where
  "writeCatch tr e =
     (tr, FormatToolResponse
            (''Write to File Error With:'' @ (case e of JsError m \<Rightarrow> m | JsValue v \<Rightarrow> v)) None)"

text \<open>A step inside the \<open>try\<close>: what it throws goes to the \<open>catch\<close> block.\<close>

definition orCatch ::
  "effect list \<Rightarrow> effect list \<times> thrown option
     \<Rightarrow> (effect list \<Rightarrow> effect list \<times> ToolResponse) \<Rightarrow> effect list \<times> ToolResponse" where
  "orCatch tr step k =
     (case snd step of Some e \<Rightarrow> writeCatch (tr @ fst step) e | None \<Rightarrow> k (tr @ fst step))"

text \<open>
  \<open>processFileWrite\<close>; the input fields \<open>path\<close> and \<open>content\<close> may be missing, and an empty
  string counts as missing. The flags \<open>isProcessingFinalContent\<close> and \<open>isEditing\<close>, which
  the \<open>finally\<close> block resets and only \<open>handlePartialUpdate\<close> and the Diff Session read,
  are left out.
\<close>

definition processFileWrite ::
  "WriteEnv \<Rightarrow> string option \<Rightarrow> string option \<Rightarrow> effect list \<times> ToolResponse" where
  "processFileWrite env relPathIn contentIn =
     (if relPathIn = None \<or> relPathIn = Some [] \<or> contentIn = None \<or> contentIn = Some []
      then writeCatch [] (JsError (''Missing required parameters 'path' or 'content'' @ [CHR 0x27]))
      else
        (let relPath = the relPathIn;
             content0 = the contentIn;
             r = askResult env
         in
         orCatch [] (showChangesInDiffView env relPath content0) (\<lambda>tr1.
         orCatch tr1 (awaited env (Ask (fileTool relPath content0 Pending))) (\<lambda>tr2.
           if response r \<noteq> yesButtonTapped then
             orCatch tr2 (awaited env DiffRevert) (\<lambda>tr3.
             orCatch tr3
               (updateAsk env ((fileTool relPath content0 Rejected)\<lparr>userFeedback := askText r\<rparr>))
               (\<lambda>tr4.
                if response r = noButtonTapped
                then (tr4, FormatToolResponse ''Write operation cancelled by user.'' None)
                else
                  orCatch tr4 (awaited env (userFeedbackSay r))
                    (\<lambda>tr5.
                       (tr5, FormatToolResponse
                               (case askText r of
                                  None \<Rightarrow> ''Write operation cancelled by user.''
                                | Some t \<Rightarrow> t)
                               (askImages r)))))
           else
             orCatch tr2 (awaited env (CheckFileExists relPath)) (\<lambda>tr3.
             orCatch tr3 (awaited env DiffSave) (\<lambda>tr4.
             orCatch tr4 (updateAsk env (fileTool relPath content0 Approved)) (\<lambda>tr5.
               if userEdits env \<noteq> None \<and> userEdits env \<noteq> Some [] then
                 orCatch tr5
                   (awaited env
                      (SayUserFeedbackDiff
                         (if fileExists env then editedExistingFile else newFileCreated)
                         (getReadablePath env relPath) (the (userEdits env))))
                   (\<lambda>tr6.
                      (tr6, FormatToolResponse
                              (''The user made the following updates to your content:\<newline>\<newline>'' @
                               the (userEdits env) @
                               ''\<newline>\<newline>The updated content has been successfully saved to '' @
                               toPosix env relPath @
                               ''. (Note: you don't need to re-write the file with these changes.)'')
                              None))
               else
                 (tr5, FormatToolResponse
                         (''The content was successfully saved to '' @ toPosix env relPath @
                          ''. Do not read the file again unless you forgot the content.'')
                         None))))))))"

section \<open>Notions used to state the properties\<close>








section \<open>Example environments\<close>

definition approve :: AskResult where
  "approve = \<lparr>response = yesButtonTapped, askText = None, askImages = None\<rparr>"

definition denyWithText :: AskResult where
  "denyWithText =
     \<lparr>response = messageResponse, askText = Some ''wrong approach'', askImages = None\<rparr>"

definition decline :: AskResult where
  "decline = \<lparr>response = noButtonTapped, askText = None, askImages = None\<rparr>"

text \<open>Collaborators that never fail.\<close>

definition reliable :: "effect \<Rightarrow> thrown option" where
  "reliable c = None"

text \<open>A channel on which the broadcasts with the given state fail, and nothing else.\<close>

definition refusing :: "approvalState \<Rightarrow> effect \<Rightarrow> thrown option" where
  "refusing st c =
     (case c of
        UpdateAsk p \<Rightarrow> (if approvalState p = st then Some (JsError ''boom'') else None)
      | _ \<Rightarrow> None)"

text \<open>Collaborators of which exactly the given call fails.\<close>

definition failingAt :: "effect \<Rightarrow> effect \<Rightarrow> thrown option" where
  "failingAt c0 c = (if c = c0 then Some (JsError ''boom'') else None)"


text \<open>An approved write of a new file that the operator does not edit.\<close>

definition exampleWriteEnv :: WriteEnv where
  "exampleWriteEnv =
     \<lparr>askResult = approve, callError = reliable, isDiffViewOpen = False, fileExists = False,
      userEdits = None, toPosix = (\<lambda>p. p), getReadablePath = (\<lambda>p. p)\<rparr>"

section \<open>Facts about the string primitives\<close>

lemma dropWhile_rev_dropWhile:
  "dropWhile P (rev (dropWhile P (rev (dropWhile P s)))) = rev (dropWhile P (rev (dropWhile P s)))"
proof (cases "rev (dropWhile P (rev (dropWhile P s)))")
  case Nil
  then show ?thesis by (simp only: dropWhile.simps)
next
  case (Cons a u)
  define t where "t = dropWhile P s"
  have "rev t = takeWhile P (rev t) @ dropWhile P (rev t)" by simp
  then have "t = rev (dropWhile P (rev t)) @ rev (takeWhile P (rev t))"
    by (metis rev_append rev_rev_ident)
  with Cons have t: "t = a # u @ rev (takeWhile P (rev t))" by (simp add: t_def)
  then have "t \<noteq> []" by auto
  then have "\<not> P (hd t)" unfolding t_def by (rule hd_dropWhile)
  with t have "\<not> P a" by (metis list.sel(1))
  with Cons show ?thesis by simp
qed

lemma trim_idem: "trim (trim s) = trim s"
  by (simp add: trim_def dropWhile_rev_dropWhile dropWhile_idem)

lemma replace_g_same_aux: "r = p \<Longrightarrow> replace_g s p r = s"
proof (induction s p r rule: replace_g.induct)
  case (1 p r)
  show ?case by simp
next
  case (2 c cs p r)
  show ?case
  proof (cases "p \<noteq> [] \<and> startsWith (c # cs) p")
    case True
    then have "take (length p) (c # cs) = p" by (simp add: startsWith_def)
    then have "p @ drop (length p) (c # cs) = c # cs" by (metis append_take_drop_id)
    with True 2 show ?thesis by simp
  next
    case False
    with 2 show ?thesis by auto
  qed
qed

lemma replace_g_same: "replace_g s p p = s"
  by (rule replace_g_same_aux) simp

lemma slice_from_1: "slice xs 1 None = drop 1 xs"
  by (cases xs) (simp_all add: slice_def relativeIndex_def)

lemma slice_to_minus_1: "slice xs 0 (Some (- 1)) = butlast xs"
proof -
  have "nat (max (int (length xs) - 1) 0) = length xs - 1" by simp
  then show ?thesis by (simp add: slice_def relativeIndex_def butlast_conv_take)
qed

lemma includesStr_append: "includesStr (a @ p @ b) p"
proof (induction a)
  case Nil
  have "startsWith (p @ b) p" by (simp add: startsWith_def)
  then show ?case by (cases "p @ b") simp_all
next
  case (Cons c a)
  then show ?case by simp
qed

section \<open>Properties of \<open>preprocessContent\<close>\<close>

lemma preprocessContent_trimmed: "trim (preprocessContent c) = preprocessContent c"
  by (simp add: preprocessContent_def Let_def replace_g_same trim_idem)

text \<open>
  Claim C3. \<open>preprocessContent\<close> is to trim the content, strip a leading and a trailing
  fence line, and unescape the entities \<open>&gt;\<close>, \<open>&lt;\<close> and \<open>&quot;\<close>. The source trims
  and strips, but its three \<open>replace\<close> calls look for the characters \<open>>\<close>, \<open><\<close> and the
  double quote and put the same character back, so an entity in the content stays as it
  is: here a line holding all three entities comes out unchanged.
\<close>

theorem preprocessContent_keeps_entities:
  "preprocessContent ''&lt;p class=&quot;x&quot;&gt;'' = ''&lt;p class=&quot;x&quot;&gt;''"
  by code_simp

text \<open>
  Claim C8, as stated: \<open>preprocessContent\<close> applied twice gives what it gives applied once.
  This fails on content that opens with two fence lines: each application strips one.
\<close>

theorem preprocessContent_not_idempotent:
  "preprocessContent ''```\<newline>```\<newline>foo'' = ''```\<newline>foo'' \<and>
   preprocessContent (preprocessContent ''```\<newline>```\<newline>foo'') = ''foo'' \<and>
   preprocessContent (preprocessContent ''```\<newline>```\<newline>foo'') \<noteq>
     preprocessContent ''```\<newline>```\<newline>foo''"
  by code_simp

text \<open>
  Claim C8, amended: when the preprocessed content neither starts nor ends with a fence,
  preprocessing it again changes nothing.
\<close>

theorem preprocessContent_idempotent_unfenced:
  assumes "\<not> startsWith (preprocessContent c) ''```''"
    and "\<not> endsWith (preprocessContent c) ''```''"
  shows "preprocessContent (preprocessContent c) = preprocessContent c"
proof -
  define r where "r = preprocessContent c"
  have "trim r = r" unfolding r_def by (rule preprocessContent_trimmed)
  with assms show ?thesis unfolding r_def[symmetric]
    by (simp add: preprocessContent_def[of r] Let_def replace_g_same)
qed

text \<open>Claim C8 at a concrete input: a fenced line with white space around the fence.\<close>

theorem preprocessContent_idempotent_unfenced_witness:
  "\<not> startsWith (preprocessContent ''  ```ts\<newline>let a = 1\<newline>```  '') ''```'' \<and>
   \<not> endsWith (preprocessContent ''  ```ts\<newline>let a = 1\<newline>```  '') ''```'' \<and>
   preprocessContent ''  ```ts\<newline>let a = 1\<newline>```  '' = ''let a = 1'' \<and>
   preprocessContent (preprocessContent ''  ```ts\<newline>let a = 1\<newline>```  '') =
     preprocessContent ''  ```ts\<newline>let a = 1\<newline>```  ''"
proof -
  have h1: "\<not> startsWith (preprocessContent ''  ```ts\<newline>let a = 1\<newline>```  '') ''```''"
    by code_simp
  have h2: "\<not> endsWith (preprocessContent ''  ```ts\<newline>let a = 1\<newline>```  '') ''```''"
    by code_simp
  have h3: "preprocessContent ''  ```ts\<newline>let a = 1\<newline>```  '' = ''let a = 1''"
    by code_simp
  show ?thesis
    using h1 h2 h3 preprocessContent_idempotent_unfenced [OF h1 h2] by simp
qed

section \<open>Properties of the command engine\<close>


lemma updateAsk_effects:
  "fst (updateAsk env p) = [UpdateAsk p] \<or> (\<exists>e. fst (updateAsk env p) = [UpdateAskFailed p e])"
  by (simp add: updateAsk_def split: option.splits)

lemma updateAsk_delivered:
  "callError env (UpdateAsk p) = None \<Longrightarrow> updateAsk env p = ([UpdateAsk p], None)"
  by (simp add: updateAsk_def)


lemma updateAskUnawaited_delivered:
  "callError env (UpdateAsk p) = None \<Longrightarrow> updateAskUnawaited env p = [UpdateAsk p]"
  by (simp add: updateAskUnawaited_def)



lemma broadcastStates_awaited:
  "(\<And>p. c \<noteq> UpdateAsk p) \<Longrightarrow> broadcastStates (fst (awaited env c)) = []"
  by (cases c) (auto simp: awaited_def split: option.splits)

lemma awaited_ok: "callError env c = None \<Longrightarrow> awaited env c = ([c], None)"
  by (simp add: awaited_def)

lemma awaited_fails: "callError env c = Some e \<Longrightarrow> awaited env c = ([c, Threw e], Some e)"
  by (simp add: awaited_def)










lemma emitted_Emit: "emitted (Emit e # rest) = e # emitted rest"
  by simp





lemma engine_effects_append_Nil: "s\<lparr>effects := effects s @ []\<rparr> = s"
  by simp





































lemma orThrow_Some: "snd st = Some e \<Longrightarrow> orThrow tr st k = (tr @ fst st, Inl e)"
  by (simp add: orThrow_def)













section \<open>Properties of the file write engine\<close>

lemma orCatch_None: "snd st = None \<Longrightarrow> orCatch tr st k = k (tr @ fst st)"
  by (simp add: orCatch_def)

lemma orCatch_Some: "snd st = Some e \<Longrightarrow> orCatch tr st k = writeCatch (tr @ fst st) e"
  by (simp add: orCatch_def)

lemma orCatch_list_all:
  assumes "list_all P tr" and "list_all P (fst st)"
    and "\<And>tr'. list_all P tr' \<Longrightarrow> list_all P (fst (k tr'))"
  shows "list_all P (fst (orCatch tr st k))"
  using assms by (simp add: orCatch_def writeCatch_def split: option.splits)

lemma awaited_list_all:
  "P c \<Longrightarrow> (\<And>e. P (Threw e)) \<Longrightarrow> list_all P (fst (awaited env c))"
  by (simp add: awaited_def split: option.splits)

lemma updateAsk_list_all:
  "P (UpdateAsk p) \<Longrightarrow> (\<And>e. P (UpdateAskFailed p e)) \<Longrightarrow> list_all P (fst (updateAsk env p))"
  by (simp add: updateAsk_def split: option.splits)



lemma showChanges_no_commit:
  "DiffSave \<notin> set (fst (showChangesInDiffView env relPath c0))"
  "DiffRevert \<notin> set (fst (showChangesInDiffView env relPath c0))"
  "broadcastStates (fst (showChangesInDiffView env relPath c0)) = []"
  by (auto simp: showChangesInDiffView_def awaited_def Let_def split: option.splits)


lemma processFileWrite_preview_fails:
  assumes "relPath \<noteq> []" and "c0 \<noteq> []"
    and "snd (showChangesInDiffView env relPath c0) = Some e"
  shows "processFileWrite env (Some relPath) (Some c0) =
     writeCatch (fst (showChangesInDiffView env relPath c0)) e"
  using assms by (simp add: processFileWrite_def orCatch_Some Let_def)

lemma processFileWrite_ask_fails:
  assumes "relPath \<noteq> []" and "c0 \<noteq> []"
    and "snd (showChangesInDiffView env relPath c0) = None"
    and "callError env (Ask (fileTool relPath c0 Pending)) = Some e"
  shows "processFileWrite env (Some relPath) (Some c0) =
     writeCatch (fst (showChangesInDiffView env relPath c0) @
                 [Ask (fileTool relPath c0 Pending), Threw e]) e"
  using assms by (simp add: processFileWrite_def orCatch_Some orCatch_None awaited_fails Let_def)

lemma processFileWrite_asked:
  assumes "relPath \<noteq> []" and "c0 \<noteq> []"
    and "snd (showChangesInDiffView env relPath c0) = None"
    and "callError env (Ask (fileTool relPath c0 Pending)) = None"
  shows "processFileWrite env (Some relPath) (Some c0) =
    (if response (askResult env) \<noteq> yesButtonTapped then
       orCatch (fst (showChangesInDiffView env relPath c0) @ [Ask (fileTool relPath c0 Pending)])
         (awaited env DiffRevert) (\<lambda>tr3.
       orCatch tr3
         (updateAsk env ((fileTool relPath c0 Rejected)\<lparr>userFeedback := askText (askResult env)\<rparr>))
         (\<lambda>tr4.
            if response (askResult env) = noButtonTapped
            then (tr4, FormatToolResponse ''Write operation cancelled by user.'' None)
            else
              orCatch tr4 (awaited env (userFeedbackSay (askResult env)))
                (\<lambda>tr5.
                   (tr5, FormatToolResponse
                           (case askText (askResult env) of
                              None \<Rightarrow> ''Write operation cancelled by user.''
                            | Some t \<Rightarrow> t)
                           (askImages (askResult env))))))
     else
       orCatch (fst (showChangesInDiffView env relPath c0) @ [Ask (fileTool relPath c0 Pending)])
         (awaited env (CheckFileExists relPath)) (\<lambda>tr3.
       orCatch tr3 (awaited env DiffSave) (\<lambda>tr4.
       orCatch tr4 (updateAsk env (fileTool relPath c0 Approved)) (\<lambda>tr5.
         if userEdits env \<noteq> None \<and> userEdits env \<noteq> Some [] then
           orCatch tr5
             (awaited env
                (SayUserFeedbackDiff
                   (if fileExists env then editedExistingFile else newFileCreated)
                   (getReadablePath env relPath) (the (userEdits env))))
             (\<lambda>tr6.
                (tr6, FormatToolResponse
                        (''The user made the following updates to your content:\<newline>\<newline>'' @
                         the (userEdits env) @
                         ''\<newline>\<newline>The updated content has been successfully saved to '' @
                         toPosix env relPath @
                         ''. (Note: you don't need to re-write the file with these changes.)'')
                        None))
         else
           (tr5, FormatToolResponse
                   (''The content was successfully saved to '' @ toPosix env relPath @
                    ''. Do not read the file again unless you forgot the content.'')
                   None)))))"
  using assms by (simp add: processFileWrite_def orCatch_None awaited_ok Let_def)

lemma processFileWrite_rejected:
  assumes "relPath \<noteq> []" and "c0 \<noteq> []"
    and "snd (showChangesInDiffView env relPath c0) = None"
    and "callError env (Ask (fileTool relPath c0 Pending)) = None"
    and "response (askResult env) \<noteq> yesButtonTapped"
    and "callError env DiffRevert = None"
    and "callError env (UpdateAsk ((fileTool relPath c0 Rejected)\<lparr>userFeedback := askText (askResult env)\<rparr>)) = None"
  shows "processFileWrite env (Some relPath) (Some c0) =
    (if response (askResult env) = noButtonTapped
     then (fst (showChangesInDiffView env relPath c0) @
             [Ask (fileTool relPath c0 Pending), DiffRevert,
              UpdateAsk ((fileTool relPath c0 Rejected)\<lparr>userFeedback := askText (askResult env)\<rparr>)],
           FormatToolResponse ''Write operation cancelled by user.'' None)
     else
       orCatch (fst (showChangesInDiffView env relPath c0) @
                  [Ask (fileTool relPath c0 Pending), DiffRevert,
                   UpdateAsk ((fileTool relPath c0 Rejected)\<lparr>userFeedback := askText (askResult env)\<rparr>)])
         (awaited env (userFeedbackSay (askResult env)))
         (\<lambda>tr5.
            (tr5, FormatToolResponse
                    (case askText (askResult env) of
                       None \<Rightarrow> ''Write operation cancelled by user.''
                     | Some t \<Rightarrow> t)
                    (askImages (askResult env)))))"
  using assms(5-7)
  by (simp add: processFileWrite_asked [OF assms(1-4)] orCatch_None awaited_ok updateAsk_delivered)

lemma processFileWrite_approved:
  assumes "relPath \<noteq> []" and "c0 \<noteq> []"
    and "snd (showChangesInDiffView env relPath c0) = None"
    and "callError env (Ask (fileTool relPath c0 Pending)) = None"
    and "response (askResult env) = yesButtonTapped"
    and "callError env (CheckFileExists relPath) = None"
    and "callError env DiffSave = None"
    and "callError env (UpdateAsk (fileTool relPath c0 Approved)) = None"
  shows "processFileWrite env (Some relPath) (Some c0) =
    (if userEdits env \<noteq> None \<and> userEdits env \<noteq> Some [] then
       orCatch (fst (showChangesInDiffView env relPath c0) @
                  [Ask (fileTool relPath c0 Pending), CheckFileExists relPath, DiffSave,
                   UpdateAsk (fileTool relPath c0 Approved)])
         (awaited env
            (SayUserFeedbackDiff
               (if fileExists env then editedExistingFile else newFileCreated)
               (getReadablePath env relPath) (the (userEdits env))))
         (\<lambda>tr6.
            (tr6, FormatToolResponse
                    (''The user made the following updates to your content:\<newline>\<newline>'' @
                     the (userEdits env) @
                     ''\<newline>\<newline>The updated content has been successfully saved to '' @
                     toPosix env relPath @
                     ''. (Note: you don't need to re-write the file with these changes.)'')
                    None))
     else
       (fst (showChangesInDiffView env relPath c0) @
          [Ask (fileTool relPath c0 Pending), CheckFileExists relPath, DiffSave,
           UpdateAsk (fileTool relPath c0 Approved)],
        FormatToolResponse
          (''The content was successfully saved to '' @ toPosix env relPath @
           ''. Do not read the file again unless you forgot the content.'')
          None))"
  using assms(5-8)
  by (simp add: processFileWrite_asked [OF assms(1-4)] orCatch_None awaited_ok updateAsk_delivered)



lemma processFileWrite_not_saved:
  assumes "relPath \<noteq> []" and "c0 \<noteq> []"
    and "\<not> (snd (showChangesInDiffView env relPath c0) = None \<and>
            callError env (Ask (fileTool relPath c0 Pending)) = None \<and>
            response (askResult env) = yesButtonTapped \<and>
            callError env (CheckFileExists relPath) = None)"
  shows "DiffSave \<notin> set (fst (processFileWrite env (Some relPath) (Some c0)))"
proof (cases "snd (showChangesInDiffView env relPath c0)")
  case (Some e)
  show ?thesis
    using showChanges_no_commit(1) [of env relPath c0]
    by (simp add: processFileWrite_preview_fails [OF assms(1,2) Some] writeCatch_def)
next
  case pv: None
  show ?thesis
  proof (cases "callError env (Ask (fileTool relPath c0 Pending))")
    case (Some e)
    show ?thesis
      using showChanges_no_commit(1) [of env relPath c0]
      by (simp add: processFileWrite_ask_fails [OF assms(1,2) pv Some] writeCatch_def)
  next
    case ask: None
    note pw = processFileWrite_asked [OF assms(1,2) pv ask]
    show ?thesis
    proof (cases "response (askResult env) = yesButtonTapped")
      case False
      define tr2 where "tr2 = fst (showChangesInDiffView env relPath c0) @ [Ask (fileTool relPath c0 Pending)]"
      have sc: "list_all (\<lambda>x. x \<noteq> DiffSave) tr2"
        using showChanges_no_commit(1) [of env relPath c0] by (auto simp: tr2_def list_all_iff)
      have "list_all (\<lambda>x. x \<noteq> DiffSave) (fst (processFileWrite env (Some relPath) (Some c0)))"
        unfolding pw tr2_def [symmetric] using False
        by (auto simp: userFeedbackSay_def
                 intro!: orCatch_list_all awaited_list_all updateAsk_list_all sc)
      then show ?thesis by (auto simp: list_all_iff)
    next
      case True
      with assms(3) pv ask obtain e where "callError env (CheckFileExists relPath) = Some e"
        by auto
      then show ?thesis
        using True showChanges_no_commit(1) [of env relPath c0]
        by (simp add: pw orCatch_Some awaited_fails writeCatch_def)
    qed
  qed
qed




text \<open>
  Claim C6, as stated: a file write that is not approved is reverted, a \<open>rejected\<close>
  broadcast is sent, and \<open>noButtonTapped\<close> always gives the fixed cancellation phrase.
  When \<open>revertChanges\<close> fails after a \<open>noButtonTapped\<close>, no broadcast is sent and the
  result is the error text of the \<open>catch\<close> block; so it is when the channel refuses the
  \<open>rejected\<close> broadcast, and when the \<open>user_feedback\<close> message fails.
\<close>

theorem rejected_write_counterexample:
  "response (askResult (exampleWriteEnv\<lparr>askResult := decline, callError := failingAt DiffRevert\<rparr>)) =
     noButtonTapped \<and>
   processFileWrite (exampleWriteEnv\<lparr>askResult := decline, callError := failingAt DiffRevert\<rparr>)
       (Some ''a.txt'') (Some ''hello'') =
     ([DiffOpen ''a.txt'', DiffUpdate ''hello'' True, Ask (fileTool ''a.txt'' ''hello'' Pending),
       DiffRevert, Threw (JsError ''boom'')],
      FormatToolResponse ''Write to File Error With:boom'' None) \<and>
   processFileWrite (exampleWriteEnv\<lparr>askResult := decline, callError := refusing Rejected\<rparr>)
       (Some ''a.txt'') (Some ''hello'') =
     ([DiffOpen ''a.txt'', DiffUpdate ''hello'' True, Ask (fileTool ''a.txt'' ''hello'' Pending),
       DiffRevert,
       UpdateAskFailed ((fileTool ''a.txt'' ''hello'' Rejected)\<lparr>userFeedback := None\<rparr>)
         (JsError ''boom'')],
      FormatToolResponse ''Write to File Error With:boom'' None) \<and>
   snd (processFileWrite
          (exampleWriteEnv\<lparr>askResult := denyWithText,
             callError := failingAt (userFeedbackSay denyWithText)\<rparr>)
          (Some ''a.txt'') (Some ''hello'')) =
     FormatToolResponse ''Write to File Error With:boom'' None"
  by code_simp

text \<open>
  Claim C6, amended: take a file-write invocation whose preview succeeds, whose approval
  prompt resolves with a response other than \<open>yesButtonTapped\<close>, and whose \<open>revertChanges\<close>
  and \<open>rejected\<close> broadcast succeed. After the preview the engine asks, then reverts the
  Diff Session, then sends the broadcast with \<open>approvalState\<close> \<open>rejected\<close> and the
  operator's text as \<open>userFeedback\<close>, then, unless the response is \<open>noButtonTapped\<close>, sends
  the \<open>user_feedback\<close> message, and does nothing else; the session is not saved. A
  \<open>noButtonTapped\<close> gives the fixed phrase ``Write operation cancelled by user.''; any
  other response gives the operator's text with the images, or that phrase when there is
  no text, provided the \<open>user_feedback\<close> message succeeds, and the error text of the
  \<open>catch\<close> block when it fails.
\<close>

theorem rejected_write_is_reverted:
  assumes "relPath \<noteq> []" and "c0 \<noteq> []"
    and "snd (showChangesInDiffView env relPath c0) = None"
    and "callError env (Ask (fileTool relPath c0 Pending)) = None"
    and "response (askResult env) \<noteq> yesButtonTapped"
    and "callError env DiffRevert = None"
    and "callError env (UpdateAsk ((fileTool relPath c0 Rejected)\<lparr>userFeedback := askText (askResult env)\<rparr>)) = None"
  shows "fst (processFileWrite env (Some relPath) (Some c0)) =
           fst (showChangesInDiffView env relPath c0) @
           [Ask (fileTool relPath c0 Pending), DiffRevert,
            UpdateAsk ((fileTool relPath c0 Rejected)\<lparr>userFeedback := askText (askResult env)\<rparr>)] @
           (if response (askResult env) = noButtonTapped then []
            else fst (awaited env (userFeedbackSay (askResult env))))
    \<and> approvalState ((fileTool relPath c0 Rejected)\<lparr>userFeedback := askText (askResult env)\<rparr>) = Rejected
    \<and> userFeedback ((fileTool relPath c0 Rejected)\<lparr>userFeedback := askText (askResult env)\<rparr>) =
         askText (askResult env)
    \<and> DiffSave \<notin> set (fst (processFileWrite env (Some relPath) (Some c0)))
    \<and> (response (askResult env) = noButtonTapped \<longrightarrow>
         snd (processFileWrite env (Some relPath) (Some c0)) =
           FormatToolResponse ''Write operation cancelled by user.'' None)
    \<and> (response (askResult env) \<noteq> noButtonTapped \<and>
        callError env (userFeedbackSay (askResult env)) = None \<longrightarrow>
         snd (processFileWrite env (Some relPath) (Some c0)) =
           FormatToolResponse
             (case askText (askResult env) of
                None \<Rightarrow> ''Write operation cancelled by user.'' | Some t \<Rightarrow> t)
             (askImages (askResult env)))
    \<and> (response (askResult env) \<noteq> noButtonTapped \<and>
        callError env (userFeedbackSay (askResult env)) = Some e \<longrightarrow>
         snd (processFileWrite env (Some relPath) (Some c0)) =
           FormatToolResponse
             (''Write to File Error With:'' @ (case e of JsError m \<Rightarrow> m | JsValue v \<Rightarrow> v)) None)"
proof -
  note pw = processFileWrite_rejected [OF assms]
  let ?rej = "(fileTool relPath c0 Rejected)\<lparr>userFeedback := askText (askResult env)\<rparr>"
  have a: "fst (processFileWrite env (Some relPath) (Some c0)) =
           fst (showChangesInDiffView env relPath c0) @
           [Ask (fileTool relPath c0 Pending), DiffRevert, UpdateAsk ?rej] @
           (if response (askResult env) = noButtonTapped then []
            else fst (awaited env (userFeedbackSay (askResult env))))"
    by (simp add: pw orCatch_def writeCatch_def split: option.splits)
  have b: "approvalState ?rej = Rejected" "userFeedback ?rej = askText (askResult env)"
    by (simp_all add: fileTool_def)
  have c: "DiffSave \<notin> set (fst (processFileWrite env (Some relPath) (Some c0)))"
    using assms(5) by (intro processFileWrite_not_saved [OF assms(1,2)]) simp
  have d: "response (askResult env) = noButtonTapped \<longrightarrow>
         snd (processFileWrite env (Some relPath) (Some c0)) =
           FormatToolResponse ''Write operation cancelled by user.'' None"
    by (simp add: pw)
  have f: "response (askResult env) \<noteq> noButtonTapped \<and>
        callError env (userFeedbackSay (askResult env)) = None \<longrightarrow>
         snd (processFileWrite env (Some relPath) (Some c0)) =
           FormatToolResponse
             (case askText (askResult env) of
                None \<Rightarrow> ''Write operation cancelled by user.'' | Some t \<Rightarrow> t)
             (askImages (askResult env))"
    by (simp add: pw orCatch_None awaited_ok)
  have g: "response (askResult env) \<noteq> noButtonTapped \<and>
        callError env (userFeedbackSay (askResult env)) = Some e \<longrightarrow>
         snd (processFileWrite env (Some relPath) (Some c0)) =
           FormatToolResponse
             (''Write to File Error With:'' @ (case e of JsError m \<Rightarrow> m | JsValue v \<Rightarrow> v)) None"
    by (simp add: pw orCatch_Some awaited_fails writeCatch_def)
  show ?thesis using a b c d f g by blast
qed

text \<open>
  Claim C6 at concrete inputs: a write rejected with the text \<open>wrong approach\<close>, and one
  rejected with \<open>noButtonTapped\<close>.
\<close>

theorem rejected_write_is_reverted_witness:
  "''a.txt'' \<noteq> [] \<and> ''hello'' \<noteq> [] \<and>
   snd (showChangesInDiffView (exampleWriteEnv\<lparr>askResult := denyWithText\<rparr>) ''a.txt'' ''hello'') = None \<and>
   callError (exampleWriteEnv\<lparr>askResult := denyWithText\<rparr>) (Ask (fileTool ''a.txt'' ''hello'' Pending)) = None \<and>
   response (askResult (exampleWriteEnv\<lparr>askResult := denyWithText\<rparr>)) = messageResponse \<and>
   callError (exampleWriteEnv\<lparr>askResult := denyWithText\<rparr>) DiffRevert = None \<and>
   callError (exampleWriteEnv\<lparr>askResult := denyWithText\<rparr>)
     (UpdateAsk ((fileTool ''a.txt'' ''hello'' Rejected)\<lparr>userFeedback := Some ''wrong approach''\<rparr>)) = None \<and>
   callError (exampleWriteEnv\<lparr>askResult := denyWithText\<rparr>) (userFeedbackSay denyWithText) = None \<and>
   processFileWrite (exampleWriteEnv\<lparr>askResult := denyWithText\<rparr>) (Some ''a.txt'') (Some ''hello'') =
     ([DiffOpen ''a.txt'', DiffUpdate ''hello'' True, Ask (fileTool ''a.txt'' ''hello'' Pending),
       DiffRevert,
       UpdateAsk ((fileTool ''a.txt'' ''hello'' Rejected)\<lparr>userFeedback := Some ''wrong approach''\<rparr>),
       Say ''user_feedback'' (Some ''wrong approach'') None],
      FormatToolResponse ''wrong approach'' None) \<and>
   response (askResult (exampleWriteEnv\<lparr>askResult := decline\<rparr>)) = noButtonTapped \<and>
   processFileWrite (exampleWriteEnv\<lparr>askResult := decline\<rparr>) (Some ''a.txt'') (Some ''hello'') =
     ([DiffOpen ''a.txt'', DiffUpdate ''hello'' True, Ask (fileTool ''a.txt'' ''hello'' Pending),
       DiffRevert, UpdateAsk ((fileTool ''a.txt'' ''hello'' Rejected)\<lparr>userFeedback := None\<rparr>)],
      FormatToolResponse ''Write operation cancelled by user.'' None)"
proof -
  let ?e1 = "exampleWriteEnv\<lparr>askResult := denyWithText\<rparr>"
  let ?e2 = "exampleWriteEnv\<lparr>askResult := decline\<rparr>"
  have n1: "''a.txt'' \<noteq> []" and n2: "''hello'' \<noteq> []" by simp_all
  have pp: "preprocessContent ''hello'' = ''hello''" by code_simp
  have s1: "showChangesInDiffView ?e1 ''a.txt'' ''hello'' =
      ([DiffOpen ''a.txt'', DiffUpdate ''hello'' True], None)"
    by (simp add: showChangesInDiffView_def awaited_def exampleWriteEnv_def reliable_def pp)
  have s2: "showChangesInDiffView ?e2 ''a.txt'' ''hello'' =
      ([DiffOpen ''a.txt'', DiffUpdate ''hello'' True], None)"
    by (simp add: showChangesInDiffView_def awaited_def exampleWriteEnv_def reliable_def pp)
  have h1: "snd (showChangesInDiffView ?e1 ''a.txt'' ''hello'') = None" by (simp add: s1)
  have h2: "callError ?e1 (Ask (fileTool ''a.txt'' ''hello'' Pending)) = None"
    by (simp add: exampleWriteEnv_def reliable_def)
  have h3: "response (askResult ?e1) \<noteq> yesButtonTapped" by (simp add: denyWithText_def)
  have h3': "response (askResult ?e1) = messageResponse" by (simp add: denyWithText_def)
  have h4: "callError ?e1 DiffRevert = None" by (simp add: exampleWriteEnv_def reliable_def)
  have h5: "callError ?e1 (UpdateAsk ((fileTool ''a.txt'' ''hello'' Rejected)\<lparr>userFeedback := askText (askResult ?e1)\<rparr>)) = None"
    by (simp add: exampleWriteEnv_def reliable_def)
  have h5': "callError ?e1 (UpdateAsk ((fileTool ''a.txt'' ''hello'' Rejected)\<lparr>userFeedback := Some ''wrong approach''\<rparr>)) = None"
    by (simp add: exampleWriteEnv_def reliable_def)
  have h6: "callError ?e1 (userFeedbackSay denyWithText) = None"
    by (simp add: exampleWriteEnv_def reliable_def)
  have k1: "snd (showChangesInDiffView ?e2 ''a.txt'' ''hello'') = None" by (simp add: s2)
  have k2: "callError ?e2 (Ask (fileTool ''a.txt'' ''hello'' Pending)) = None"
    by (simp add: exampleWriteEnv_def reliable_def)
  have k3: "response (askResult ?e2) \<noteq> yesButtonTapped" by (simp add: decline_def)
  have k3': "response (askResult ?e2) = noButtonTapped" by (simp add: decline_def)
  have k4: "callError ?e2 DiffRevert = None" by (simp add: exampleWriteEnv_def reliable_def)
  have k5: "callError ?e2 (UpdateAsk ((fileTool ''a.txt'' ''hello'' Rejected)\<lparr>userFeedback := askText (askResult ?e2)\<rparr>)) = None"
    by (simp add: exampleWriteEnv_def reliable_def)
  note t1 = rejected_write_is_reverted [OF n1 n2 h1 h2 h3 h4 h5]
  note t2 = rejected_write_is_reverted [OF n1 n2 k1 k2 k3 k4 k5]
  have a1: "fst (processFileWrite ?e1 (Some ''a.txt'') (Some ''hello'')) =
     [DiffOpen ''a.txt'', DiffUpdate ''hello'' True, Ask (fileTool ''a.txt'' ''hello'' Pending),
       DiffRevert,
       UpdateAsk ((fileTool ''a.txt'' ''hello'' Rejected)\<lparr>userFeedback := Some ''wrong approach''\<rparr>),
       Say ''user_feedback'' (Some ''wrong approach'') None]"
    using t1 [THEN conjunct1] h6
    by (simp add: s1 awaited_ok) (simp add: denyWithText_def userFeedbackSay_def)
  have a2: "snd (processFileWrite ?e1 (Some ''a.txt'') (Some ''hello'')) =
     FormatToolResponse ''wrong approach'' None"
    using t1 h3' h6 by (simp add: denyWithText_def)
  have b1: "fst (processFileWrite ?e2 (Some ''a.txt'') (Some ''hello'')) =
     [DiffOpen ''a.txt'', DiffUpdate ''hello'' True, Ask (fileTool ''a.txt'' ''hello'' Pending),
       DiffRevert, UpdateAsk ((fileTool ''a.txt'' ''hello'' Rejected)\<lparr>userFeedback := None\<rparr>)]"
    using t2 [THEN conjunct1] k3' by (simp add: s2) (simp add: decline_def)
  have b2: "snd (processFileWrite ?e2 (Some ''a.txt'') (Some ''hello'')) =
     FormatToolResponse ''Write operation cancelled by user.'' None"
    using t2 k3' by simp
  have a: "processFileWrite ?e1 (Some ''a.txt'') (Some ''hello'') =
     ([DiffOpen ''a.txt'', DiffUpdate ''hello'' True, Ask (fileTool ''a.txt'' ''hello'' Pending),
       DiffRevert,
       UpdateAsk ((fileTool ''a.txt'' ''hello'' Rejected)\<lparr>userFeedback := Some ''wrong approach''\<rparr>),
       Say ''user_feedback'' (Some ''wrong approach'') None],
      FormatToolResponse ''wrong approach'' None)"
    using a1 a2 by (simp add: prod_eq_iff)
  have b: "processFileWrite ?e2 (Some ''a.txt'') (Some ''hello'') =
     ([DiffOpen ''a.txt'', DiffUpdate ''hello'' True, Ask (fileTool ''a.txt'' ''hello'' Pending),
       DiffRevert, UpdateAsk ((fileTool ''a.txt'' ''hello'' Rejected)\<lparr>userFeedback := None\<rparr>)],
      FormatToolResponse ''Write operation cancelled by user.'' None)"
    using b1 b2 by (simp add: prod_eq_iff)
  from n1 n2 h1 h2 h3' h4 h5' h6 a k3' b show ?thesis by blast
qed

text \<open>
  Claim C9, as stated: an approved write whose save reports user edits returns a result
  quoting them, and one without edits a result saying that the content was saved. When
  the channel refuses the \<open>approved\<close> broadcast, which is sent after the save, the result
  is the error text of the \<open>catch\<close> block, with or without user edits; so it is when the
  \<open>user_feedback_diff\<close> message fails.
\<close>

theorem approved_write_counterexample:
  "response (askResult (exampleWriteEnv\<lparr>callError := refusing Approved, userEdits := Some ''+x''\<rparr>)) =
     yesButtonTapped \<and>
   userEdits (exampleWriteEnv\<lparr>callError := refusing Approved, userEdits := Some ''+x''\<rparr>) = Some ''+x'' \<and>
   processFileWrite (exampleWriteEnv\<lparr>callError := refusing Approved, userEdits := Some ''+x''\<rparr>)
       (Some ''a.txt'') (Some ''hello'') =
     ([DiffOpen ''a.txt'', DiffUpdate ''hello'' True, Ask (fileTool ''a.txt'' ''hello'' Pending),
       CheckFileExists ''a.txt'', DiffSave,
       UpdateAskFailed (fileTool ''a.txt'' ''hello'' Approved) (JsError ''boom'')],
      FormatToolResponse ''Write to File Error With:boom'' None) \<and>
   processFileWrite (exampleWriteEnv\<lparr>callError := refusing Approved\<rparr>)
       (Some ''a.txt'') (Some ''hello'') =
     ([DiffOpen ''a.txt'', DiffUpdate ''hello'' True, Ask (fileTool ''a.txt'' ''hello'' Pending),
       CheckFileExists ''a.txt'', DiffSave,
       UpdateAskFailed (fileTool ''a.txt'' ''hello'' Approved) (JsError ''boom'')],
      FormatToolResponse ''Write to File Error With:boom'' None) \<and>
   snd (processFileWrite
          (exampleWriteEnv\<lparr>callError := failingAt (SayUserFeedbackDiff newFileCreated ''a.txt'' ''+x''),
             userEdits := Some ''+x''\<rparr>)
          (Some ''a.txt'') (Some ''hello'')) =
     FormatToolResponse ''Write to File Error With:boom'' None"
  by code_simp

text \<open>
  Claim C9, amended: take an approved file-write invocation whose preview, existence
  check, save and \<open>approved\<close> broadcast succeed. If \<open>saveChanges\<close> reports non-empty user
  edits and the \<open>user_feedback_diff\<close> message succeeds, the result quotes the edits
  verbatim and tells the caller that the file need not be re-written with these changes,
  and that message, sent last, says whether an existing file was edited or a new file
  was created; if the message fails the result is the error text of the \<open>catch\<close> block.
  If \<open>saveChanges\<close> reports no user edits, or empty ones, the result says that the content
  was saved and tells the caller not to read the file again, and the \<open>approved\<close> broadcast
  is the last effect.
\<close>

theorem approved_write_reports_user_edits:
  assumes "relPath \<noteq> []" and "c0 \<noteq> []"
    and "snd (showChangesInDiffView env relPath c0) = None"
    and "callError env (Ask (fileTool relPath c0 Pending)) = None"
    and "response (askResult env) = yesButtonTapped"
    and "callError env (CheckFileExists relPath) = None"
    and "callError env DiffSave = None"
    and "callError env (UpdateAsk (fileTool relPath c0 Approved)) = None"
  shows "(userEdits env = Some edits \<and> edits \<noteq> [] \<and>
          callError env
            (SayUserFeedbackDiff (if fileExists env then editedExistingFile else newFileCreated)
               (getReadablePath env relPath) edits) = None \<longrightarrow>
          processFileWrite env (Some relPath) (Some c0) =
            (fst (showChangesInDiffView env relPath c0) @
               [Ask (fileTool relPath c0 Pending), CheckFileExists relPath, DiffSave,
                UpdateAsk (fileTool relPath c0 Approved),
                SayUserFeedbackDiff (if fileExists env then editedExistingFile else newFileCreated)
                  (getReadablePath env relPath) edits],
             FormatToolResponse
               (''The user made the following updates to your content:\<newline>\<newline>'' @ edits @
                ''\<newline>\<newline>The updated content has been successfully saved to '' @
                toPosix env relPath @
                ''. (Note: you don't need to re-write the file with these changes.)'') None))
    \<and> (userEdits env = Some edits \<and> edits \<noteq> [] \<and>
        callError env
          (SayUserFeedbackDiff (if fileExists env then editedExistingFile else newFileCreated)
             (getReadablePath env relPath) edits) = Some e \<longrightarrow>
          snd (processFileWrite env (Some relPath) (Some c0)) =
            FormatToolResponse
              (''Write to File Error With:'' @ (case e of JsError m \<Rightarrow> m | JsValue v \<Rightarrow> v)) None)
    \<and> (userEdits env = None \<or> userEdits env = Some [] \<longrightarrow>
          processFileWrite env (Some relPath) (Some c0) =
            (fst (showChangesInDiffView env relPath c0) @
               [Ask (fileTool relPath c0 Pending), CheckFileExists relPath, DiffSave,
                UpdateAsk (fileTool relPath c0 Approved)],
             FormatToolResponse
               (''The content was successfully saved to '' @ toPosix env relPath @
                ''. Do not read the file again unless you forgot the content.'') None))
    \<and> approvalState (fileTool relPath c0 Approved) = Approved
    \<and> includesStr
         (''The user made the following updates to your content:\<newline>\<newline>'' @ edits @
          ''\<newline>\<newline>The updated content has been successfully saved to '' @
          toPosix env relPath @
          ''. (Note: you don't need to re-write the file with these changes.)'') edits
    \<and> includesStr
         (''The user made the following updates to your content:\<newline>\<newline>'' @ edits @
          ''\<newline>\<newline>The updated content has been successfully saved to '' @
          toPosix env relPath @
          ''. (Note: you don't need to re-write the file with these changes.)'')
         ''you don't need to re-write the file with these changes''
    \<and> includesStr
         (''The content was successfully saved to '' @ toPosix env relPath @
          ''. Do not read the file again unless you forgot the content.'')
         ''Do not read the file again''"
proof -
  note pw = processFileWrite_approved [OF assms]
  have a: "userEdits env = Some edits \<and> edits \<noteq> [] \<and>
          callError env
            (SayUserFeedbackDiff (if fileExists env then editedExistingFile else newFileCreated)
               (getReadablePath env relPath) edits) = None \<longrightarrow>
          processFileWrite env (Some relPath) (Some c0) =
            (fst (showChangesInDiffView env relPath c0) @
               [Ask (fileTool relPath c0 Pending), CheckFileExists relPath, DiffSave,
                UpdateAsk (fileTool relPath c0 Approved),
                SayUserFeedbackDiff (if fileExists env then editedExistingFile else newFileCreated)
                  (getReadablePath env relPath) edits],
             FormatToolResponse
               (''The user made the following updates to your content:\<newline>\<newline>'' @ edits @
                ''\<newline>\<newline>The updated content has been successfully saved to '' @
                toPosix env relPath @
                ''. (Note: you don't need to re-write the file with these changes.)'') None)"
    by (simp add: pw orCatch_None awaited_ok)
  have a': "userEdits env = Some edits \<and> edits \<noteq> [] \<and>
        callError env
          (SayUserFeedbackDiff (if fileExists env then editedExistingFile else newFileCreated)
             (getReadablePath env relPath) edits) = Some e \<longrightarrow>
          snd (processFileWrite env (Some relPath) (Some c0)) =
            FormatToolResponse
              (''Write to File Error With:'' @ (case e of JsError m \<Rightarrow> m | JsValue v \<Rightarrow> v)) None"
    by (simp add: pw orCatch_Some awaited_fails writeCatch_def)
  have b: "userEdits env = None \<or> userEdits env = Some [] \<longrightarrow>
          processFileWrite env (Some relPath) (Some c0) =
            (fst (showChangesInDiffView env relPath c0) @
               [Ask (fileTool relPath c0 Pending), CheckFileExists relPath, DiffSave,
                UpdateAsk (fileTool relPath c0 Approved)],
             FormatToolResponse
               (''The content was successfully saved to '' @ toPosix env relPath @
                ''. Do not read the file again unless you forgot the content.'') None)"
    by (auto simp: pw)
  have b': "approvalState (fileTool relPath c0 Approved) = Approved"
    by (simp add: fileTool_def)
  have c: "includesStr
         (''The user made the following updates to your content:\<newline>\<newline>'' @ edits @
          ''\<newline>\<newline>The updated content has been successfully saved to '' @
          toPosix env relPath @
          ''. (Note: you don't need to re-write the file with these changes.)'') edits"
    by (rule includesStr_append)
  have "includesStr
         ((''The user made the following updates to your content:\<newline>\<newline>'' @ edits @
           ''\<newline>\<newline>The updated content has been successfully saved to '' @
           toPosix env relPath @ ''. (Note: '') @
          ''you don't need to re-write the file with these changes'' @ ''.)'')
         ''you don't need to re-write the file with these changes''"
    by (rule includesStr_append)
  then have d: "includesStr
         (''The user made the following updates to your content:\<newline>\<newline>'' @ edits @
          ''\<newline>\<newline>The updated content has been successfully saved to '' @
          toPosix env relPath @
          ''. (Note: you don't need to re-write the file with these changes.)'')
         ''you don't need to re-write the file with these changes''"
    by (simp only: append_assoc append_Cons append_Nil)
  have "includesStr
         ((''The content was successfully saved to '' @ toPosix env relPath @ ''. '') @
          ''Do not read the file again'' @ '' unless you forgot the content.'')
         ''Do not read the file again''"
    by (rule includesStr_append)
  then have f: "includesStr
         (''The content was successfully saved to '' @ toPosix env relPath @
          ''. Do not read the file again unless you forgot the content.'')
         ''Do not read the file again''"
    by (simp only: append_assoc append_Cons append_Nil)
  show ?thesis using a a' b b' c d f by blast
qed

text \<open>
  Claim C9 at concrete inputs: a new file saved with the user edit \<open>+x\<close>, and one saved
  without edits.
\<close>

theorem approved_write_reports_user_edits_witness:
  "''a.txt'' \<noteq> [] \<and> ''hello'' \<noteq> [] \<and>
   snd (showChangesInDiffView (exampleWriteEnv\<lparr>userEdits := Some ''+x''\<rparr>) ''a.txt'' ''hello'') = None \<and>
   callError (exampleWriteEnv\<lparr>userEdits := Some ''+x''\<rparr>) (Ask (fileTool ''a.txt'' ''hello'' Pending)) = None \<and>
   response (askResult (exampleWriteEnv\<lparr>userEdits := Some ''+x''\<rparr>)) = yesButtonTapped \<and>
   callError (exampleWriteEnv\<lparr>userEdits := Some ''+x''\<rparr>) (CheckFileExists ''a.txt'') = None \<and>
   callError (exampleWriteEnv\<lparr>userEdits := Some ''+x''\<rparr>) DiffSave = None \<and>
   callError (exampleWriteEnv\<lparr>userEdits := Some ''+x''\<rparr>) (UpdateAsk (fileTool ''a.txt'' ''hello'' Approved)) = None \<and>
   userEdits (exampleWriteEnv\<lparr>userEdits := Some ''+x''\<rparr>) = Some ''+x'' \<and> ''+x'' \<noteq> [] \<and>
   callError (exampleWriteEnv\<lparr>userEdits := Some ''+x''\<rparr>)
     (SayUserFeedbackDiff newFileCreated ''a.txt'' ''+x'') = None \<and>
   processFileWrite (exampleWriteEnv\<lparr>userEdits := Some ''+x''\<rparr>) (Some ''a.txt'') (Some ''hello'') =
     ([DiffOpen ''a.txt'', DiffUpdate ''hello'' True, Ask (fileTool ''a.txt'' ''hello'' Pending),
       CheckFileExists ''a.txt'', DiffSave, UpdateAsk (fileTool ''a.txt'' ''hello'' Approved),
       SayUserFeedbackDiff newFileCreated ''a.txt'' ''+x''],
      FormatToolResponse
         ''The user made the following updates to your content:\<newline>\<newline>+x\<newline>\<newline>The updated content has been successfully saved to a.txt. (Note: you don't need to re-write the file with these changes.)''
         None) \<and>
   userEdits exampleWriteEnv = None \<and>
   processFileWrite exampleWriteEnv (Some ''a.txt'') (Some ''hello'') =
     ([DiffOpen ''a.txt'', DiffUpdate ''hello'' True, Ask (fileTool ''a.txt'' ''hello'' Pending),
       CheckFileExists ''a.txt'', DiffSave, UpdateAsk (fileTool ''a.txt'' ''hello'' Approved)],
      FormatToolResponse
         ''The content was successfully saved to a.txt. Do not read the file again unless you forgot the content.''
         None)"
proof -
  let ?e1 = "exampleWriteEnv\<lparr>userEdits := Some ''+x''\<rparr>"
  have n1: "''a.txt'' \<noteq> []" and n2: "''hello'' \<noteq> []" and n3: "''+x'' \<noteq> []" by simp_all
  have pp: "preprocessContent ''hello'' = ''hello''" by code_simp
  have s1: "showChangesInDiffView ?e1 ''a.txt'' ''hello'' =
      ([DiffOpen ''a.txt'', DiffUpdate ''hello'' True], None)"
    by (simp add: showChangesInDiffView_def awaited_def exampleWriteEnv_def reliable_def pp)
  have s2: "showChangesInDiffView exampleWriteEnv ''a.txt'' ''hello'' =
      ([DiffOpen ''a.txt'', DiffUpdate ''hello'' True], None)"
    by (simp add: showChangesInDiffView_def awaited_def exampleWriteEnv_def reliable_def pp)
  have h1: "snd (showChangesInDiffView ?e1 ''a.txt'' ''hello'') = None" by (simp add: s1)
  have h2: "callError ?e1 (Ask (fileTool ''a.txt'' ''hello'' Pending)) = None"
    by (simp add: exampleWriteEnv_def reliable_def)
  have h3: "response (askResult ?e1) = yesButtonTapped"
    by (simp add: exampleWriteEnv_def approve_def)
  have h4: "callError ?e1 (CheckFileExists ''a.txt'') = None"
    by (simp add: exampleWriteEnv_def reliable_def)
  have h5: "callError ?e1 DiffSave = None" by (simp add: exampleWriteEnv_def reliable_def)
  have h6: "callError ?e1 (UpdateAsk (fileTool ''a.txt'' ''hello'' Approved)) = None"
    by (simp add: exampleWriteEnv_def reliable_def)
  have h7: "userEdits ?e1 = Some ''+x''" by simp
  have h8: "callError ?e1 (SayUserFeedbackDiff newFileCreated ''a.txt'' ''+x'') = None"
    by (simp add: exampleWriteEnv_def reliable_def)
  have h9: "\<not> fileExists ?e1" "getReadablePath ?e1 ''a.txt'' = ''a.txt''"
    "toPosix ?e1 ''a.txt'' = ''a.txt''"
    by (simp_all add: exampleWriteEnv_def)
  have k1: "snd (showChangesInDiffView exampleWriteEnv ''a.txt'' ''hello'') = None" by (simp add: s2)
  have k2: "callError exampleWriteEnv (Ask (fileTool ''a.txt'' ''hello'' Pending)) = None"
    by (simp add: exampleWriteEnv_def reliable_def)
  have k3: "response (askResult exampleWriteEnv) = yesButtonTapped"
    by (simp add: exampleWriteEnv_def approve_def)
  have k4: "callError exampleWriteEnv (CheckFileExists ''a.txt'') = None"
    by (simp add: exampleWriteEnv_def reliable_def)
  have k5: "callError exampleWriteEnv DiffSave = None" by (simp add: exampleWriteEnv_def reliable_def)
  have k6: "callError exampleWriteEnv (UpdateAsk (fileTool ''a.txt'' ''hello'' Approved)) = None"
    by (simp add: exampleWriteEnv_def reliable_def)
  have k7: "userEdits exampleWriteEnv = None" by (simp add: exampleWriteEnv_def)
  have k9: "toPosix exampleWriteEnv ''a.txt'' = ''a.txt''" by (simp add: exampleWriteEnv_def)
  note t1 = approved_write_reports_user_edits [OF n1 n2 h1 h2 h3 h4 h5 h6, of "''+x''"]
  note t2 = approved_write_reports_user_edits [OF n1 n2 k1 k2 k3 k4 k5 k6]
  have a: "processFileWrite ?e1 (Some ''a.txt'') (Some ''hello'') =
     ([DiffOpen ''a.txt'', DiffUpdate ''hello'' True, Ask (fileTool ''a.txt'' ''hello'' Pending),
       CheckFileExists ''a.txt'', DiffSave, UpdateAsk (fileTool ''a.txt'' ''hello'' Approved),
       SayUserFeedbackDiff newFileCreated ''a.txt'' ''+x''],
      FormatToolResponse
         ''The user made the following updates to your content:\<newline>\<newline>+x\<newline>\<newline>The updated content has been successfully saved to a.txt. (Note: you don't need to re-write the file with these changes.)''
         None)"
    using t1 [THEN conjunct1] h7 h8 h9 by (simp add: s1)
  have b: "processFileWrite exampleWriteEnv (Some ''a.txt'') (Some ''hello'') =
     ([DiffOpen ''a.txt'', DiffUpdate ''hello'' True, Ask (fileTool ''a.txt'' ''hello'' Pending),
       CheckFileExists ''a.txt'', DiffSave, UpdateAsk (fileTool ''a.txt'' ''hello'' Approved)],
      FormatToolResponse
         ''The content was successfully saved to a.txt. Do not read the file again unless you forgot the content.''
         None)"
    using t2 [THEN conjunct2, THEN conjunct2, THEN conjunct1] k7 k9 by (simp add: s2)
  from n1 n2 n3 h1 h2 h3 h4 h5 h6 h7 h8 a k7 b show ?thesis by blast
qed














end
